theory Spec2Isabelle
  imports Main "HOL-Library.Word"
begin

text \<open>
  The duotone hooks of the block editor, \<^verbatim>\<open>packages/block-editor/src/hooks/duotone.js\<close>:
  the two exported resolvers \<^verbatim>\<open>getColorsFromDuotonePreset\<close> and
  \<^verbatim>\<open>getDuotonePresetFromColors\<close>, and the component \<^verbatim>\<open>BlockDuotoneStyles\<close>, which
  resolves the style of a block through the first of them and scopes the duotone
  selectors of the block.
  A call that ends in a JavaScript exception returns \<open>Inl\<close> of the error.
\<close>

section \<open>Strings\<close>

text \<open>
  A JavaScript string is modelled as a \<^typ>\<open>string\<close> whose characters are the code
  units U+0000 to U+00FF. The three string methods used by \<^verbatim>\<open>duotone.js\<close> are
  \<^verbatim>\<open>split( ',' )\<close>, \<^verbatim>\<open>trim()\<close> and \<^verbatim>\<open>join( ',' )\<close>.
\<close>

text \<open>
  \<^verbatim>\<open>s.split( sep )\<close> for a one-character separator: the pieces between the
  separators, in order; the empty string gives one empty piece.
\<close>

fun js_split :: "char \<Rightarrow> string \<Rightarrow> string list" where
  "js_split sep [] = [[]]"
| "js_split sep (c # cs) =
     (if c = sep then [] # js_split sep cs
      else (case js_split sep cs of
              [] \<Rightarrow> [[c]]
            | w # ws \<Rightarrow> (c # w) # ws))"

text \<open>
  The white space and line terminators that \<^verbatim>\<open>trim()\<close> strips, among the code
  units modelled: TAB, LF, VT, FF, CR, SP and NBSP.
\<close>

definition isWhiteSpace :: "char \<Rightarrow> bool" where
  "isWhiteSpace c = (of_char c \<in> {9, 10, 11, 12, 13, 32, 160 :: nat})"

definition js_trim :: "string \<Rightarrow> string" where
  "js_trim s = rev (dropWhile isWhiteSpace (rev (dropWhile isWhiteSpace s)))"

text \<open>\<^verbatim>\<open>xs.join( sep )\<close> on an array of strings.\<close>

fun js_join :: "string \<Rightarrow> string list \<Rightarrow> string" where
  "js_join sep [] = []"
| "js_join sep [x] = x"
| "js_join sep (x # y # ys) = x @ sep @ js_join sep (y # ys)"

section \<open>Scoped duotone selectors (\<^verbatim>\<open>BlockDuotoneStyles\<close>, lines 256 to 276)\<close>

text \<open>
  The body of the inner \<^verbatim>\<open>forEach\<close> callback. It assigns the trimmed strings to
  \<^verbatim>\<open>outer\<close> (a variable of the enclosing callback, so the assignment is seen by
  the next inner iteration) and to \<^verbatim>\<open>inner\<close>, and pushes at most one string on
  \<^verbatim>\<open>selectorsScoped\<close>. The state is the pair of \<^verbatim>\<open>outer\<close> and
  \<^verbatim>\<open>selectorsScoped\<close>.
\<close>

definition innerStep :: "string \<times> string list \<Rightarrow> string \<Rightarrow> string \<times> string list" where
  "innerStep st inner0 =
     (let outer = js_trim (fst st);
          inner = js_trim inner0;
          scoped = snd st
      in if outer \<noteq> [] \<and> inner \<noteq> [] then
           (outer, scoped @ [''.editor-styles-wrapper '' @ outer @ [] @ inner])
         else if outer \<noteq> [] then
           (outer, scoped @ [''.editor-styles-wrapper '' @ inner])
         else if inner \<noteq> [] then
           (outer, scoped @ [''.editor-styles-wrapper '' @ outer])
         else (outer, scoped))"

text \<open>
  What one run of the callback body pushes for the pair of \<^verbatim>\<open>outer\<close> and
  \<^verbatim>\<open>inner\<close>: no string or one.
\<close>

definition pushed :: "string \<Rightarrow> string \<Rightarrow> string list" where
  "pushed outer inner = snd (innerStep (outer, []) inner)"

text \<open>The outer callback: one pass over \<^verbatim>\<open>selectors\<close> for a scope.\<close>

definition outerStep :: "string list \<Rightarrow> string list \<Rightarrow> string \<Rightarrow> string list" where
  "outerStep selectors scoped outer = snd (foldl innerStep (outer, scoped) selectors)"

text \<open>The two nested loops, from the empty array.\<close>

definition selectorsScoped :: "string list \<Rightarrow> string list \<Rightarrow> string list" where
  "selectorsScoped scopes selectors = foldl (outerStep selectors) [] scopes"

text \<open>
  The scope string and the selector list are split on commas, and the selectors produced
  are joined with commas.
\<close>

definition computeScopedDuotoneSelectors :: "string \<Rightarrow> string \<Rightarrow> string" where
  "computeScopedDuotoneSelectors scope duotoneSupportSelectors =
     js_join '','' (selectorsScoped (js_split CHR '','' scope)
                                 (js_split CHR '','' duotoneSupportSelectors))"

text \<open>
  \<^verbatim>\<open>selectorsGroup\<close> as \<^verbatim>\<open>BlockDuotoneStyles\<close> computes it: the scope string is
  \<^verbatim>\<open>'.' + id\<close>.
\<close>

definition selectorsGroup :: "string \<Rightarrow> string \<Rightarrow> string" where
  "selectorsGroup ident duotoneSupportSelectors =
     computeScopedDuotoneSelectors (CHR ''.'' # ident) duotoneSupportSelectors"

section \<open>JavaScript values\<close>

text \<open>
  The two resolver functions are exported and take any JavaScript value. The values
  modelled are the data values: \<^verbatim>\<open>undefined\<close>, \<^verbatim>\<open>null\<close>, booleans, numbers,
  \<^verbatim>\<open>NaN\<close>, strings, arrays and plain objects. The numbers are the integers from
  \<open>- 2\<^sup>5\<^sup>3\<close> to \<open>2\<^sup>5\<^sup>3 - 1\<close>, each of which is a number of JavaScript, held as a
  signed word of 54 bits so that the model has no other number. A plain object has
  \<^verbatim>\<open>Object.prototype\<close> as its prototype and own data properties only, given as an
  association list in which the first binding of a name counts; an array has its
  elements and no other own property. An array or object carries its reference, which
  is all that \<^verbatim>\<open>===\<close> compares.
\<close>

datatype jsval =
    JUndefined
  | JNull
  | JBool bool
  | JNum "54 word"
  | JNaN
  | JStr string
  | JArr nat "jsval list"
  | JObj nat "(string \<times> jsval) list"

datatype error = TypeError

text \<open>\<^verbatim>\<open>ToBoolean\<close>: what \<^verbatim>\<open>!v\<close>, \<^verbatim>\<open>v ? a : b\<close> and \<^verbatim>\<open>find\<close> test.\<close>

fun truthy :: "jsval \<Rightarrow> bool" where
  "truthy JUndefined = False"
| "truthy JNull = False"
| "truthy (JBool b) = b"
| "truthy (JNum n) = (n \<noteq> 0)"
| "truthy JNaN = False"
| "truthy (JStr s) = (s \<noteq> [])"
| "truthy (JArr r xs) = True"
| "truthy (JObj r fs) = True"

fun nullish :: "jsval \<Rightarrow> bool" where
  "nullish JUndefined = True"
| "nullish JNull = True"
| "nullish v = False"

fun isArray :: "jsval \<Rightarrow> bool" where
  "isArray (JArr r xs) = True"
| "isArray v = False"

text \<open>Strict equality \<^verbatim>\<open>a === b\<close>.\<close>

fun strict_eq :: "jsval \<Rightarrow> jsval \<Rightarrow> bool" where
  "strict_eq JUndefined JUndefined = True"
| "strict_eq JNull JNull = True"
| "strict_eq (JBool a) (JBool b) = (a = b)"
| "strict_eq (JNum a) (JNum b) = (a = b)"
| "strict_eq (JStr a) (JStr b) = (a = b)"
| "strict_eq (JArr r xs) (JArr r' ys) = (r = r')"
| "strict_eq (JObj r fs) (JObj r' gs) = (r = r')"
| "strict_eq a b = False"

text \<open>
  Reading the property \<^verbatim>\<open>k\<close> of a value that is neither \<^verbatim>\<open>undefined\<close> nor
  \<^verbatim>\<open>null\<close>. The source reads only \<^verbatim>\<open>slug\<close> and \<^verbatim>\<open>colors\<close>, which
  primitives, arrays and \<^verbatim>\<open>Object.prototype\<close> do not have.
\<close>

fun getProp :: "jsval \<Rightarrow> string \<Rightarrow> jsval" where
  "getProp (JObj r fs) k = (case map_of fs k of None \<Rightarrow> JUndefined | Some v \<Rightarrow> v)"
| "getProp v k = JUndefined"

text \<open>\<^verbatim>\<open>v.k\<close> raises a TypeError on \<^verbatim>\<open>undefined\<close> and \<^verbatim>\<open>null\<close>; so does the
  destructuring parameter \<^verbatim>\<open>( { k } )\<close>.\<close>

definition js_member :: "jsval \<Rightarrow> string \<Rightarrow> error + jsval" where
  "js_member v k = (if nullish v then Inl TypeError else Inr (getProp v k))"

text \<open>\<^verbatim>\<open>v?.k\<close> gives \<^verbatim>\<open>undefined\<close> there.\<close>

definition optMember :: "jsval \<Rightarrow> string \<Rightarrow> jsval" where
  "optMember v k = (if nullish v then JUndefined else getProp v k)"

text \<open>\<^verbatim>\<open>xs[ i ]\<close> on an array: \<^verbatim>\<open>undefined\<close> past the end.\<close>

definition js_index :: "jsval list \<Rightarrow> nat \<Rightarrow> jsval" where
  "js_index xs i = (if i < length xs then xs ! i else JUndefined)"

text \<open>The decimal numeral of a natural number.\<close>

fun decimal :: "nat \<Rightarrow> string" where
  "decimal n =
     (if n < 10 then [char_of (48 + n)]
      else decimal (n div 10) @ [char_of (48 + n mod 10)])"

text \<open>
  The strings of a list of conversions, in order, or the error of the first conversion
  that raised.
\<close>

fun collect :: "(error + string) list \<Rightarrow> error + string list" where
  "collect [] = Inr []"
| "collect (x # xs) =
     (case x of
        Inl e \<Rightarrow> Inl e
      | Inr s \<Rightarrow> (case collect xs of Inl e \<Rightarrow> Inl e | Inr ss \<Rightarrow> Inr (s # ss)))"

text \<open>
  \<^verbatim>\<open>ToString\<close>, which a template literal applies to its substitution.
  \<^item> An integer of the model has fewer than 21 digits and prints as its decimal
    numeral, with a minus sign when it is negative.
  \<^item> An array prints through \<^verbatim>\<open>Array.prototype.join\<close>: its elements converted in
    order and separated by commas, \<^verbatim>\<open>undefined\<close> and \<^verbatim>\<open>null\<close> among them as the
    empty string.
  \<^item> A plain object is converted by calling its \<^verbatim>\<open>toString\<close>, then its
    \<^verbatim>\<open>valueOf\<close>. With no own property \<^verbatim>\<open>toString\<close> the method of
    \<^verbatim>\<open>Object.prototype\<close> answers \<^verbatim>\<open>[object Object]\<close>. An own \<^verbatim>\<open>toString\<close> is
    a data value, which cannot be called, and then neither \<^verbatim>\<open>valueOf\<close> of
    \<^verbatim>\<open>Object.prototype\<close> (it returns the object) nor an own \<^verbatim>\<open>valueOf\<close> (a data
    value again) gives a primitive: the conversion raises a TypeError.
\<close>

fun ToString :: "jsval \<Rightarrow> error + string" where
  "ToString JUndefined = Inr ''undefined''"
| "ToString JNull = Inr ''null''"
| "ToString (JBool b) = Inr (if b then ''true'' else ''false'')"
| "ToString (JNum n) =
     Inr (if sint n < 0 then CHR ''-'' # decimal (nat (- sint n)) else decimal (nat (sint n)))"
| "ToString JNaN = Inr ''NaN''"
| "ToString (JStr s) = Inr s"
| "ToString (JArr r xs) =
     (case collect (map (\<lambda>x. if nullish x then Inr [] else ToString x) xs) of
        Inl e \<Rightarrow> Inl e
      | Inr ss \<Rightarrow> Inr (js_join '','' ss))"
| "ToString (JObj r fs) =
     (case map_of fs ''toString'' of
        None \<Rightarrow> Inr ''[object Object]''
      | Some v \<Rightarrow> Inl TypeError)"

text \<open>The template literal \<^verbatim>\<open>`var:preset|duotone|${ slug }`\<close> of both resolvers.\<close>

definition presetReference :: "jsval \<Rightarrow> error + string" where
  "presetReference slug =
     (case ToString slug of
        Inl e \<Rightarrow> Inl e
      | Inr s \<Rightarrow> Inr (''var:preset|duotone|'' @ s))"

section \<open>Array methods with callbacks\<close>

text \<open>
  \<^verbatim>\<open>xs.find( f )\<close>: the first element on which the callback returns a truthy value,
  and \<^verbatim>\<open>undefined\<close> when there is none. A callback that raises ends the search
  with its error; the elements after a match are not visited.
\<close>

fun js_find :: "(jsval \<Rightarrow> error + bool) \<Rightarrow> jsval list \<Rightarrow> error + jsval" where
  "js_find f [] = Inr JUndefined"
| "js_find f (x # xs) =
     (case f x of
        Inl e \<Rightarrow> Inl e
      | Inr b \<Rightarrow> if b then Inr x else js_find f xs)"

text \<open>
  \<^verbatim>\<open>xs.every( f )\<close> where the callback takes the element and its index, from index
  \<open>i\<close> on: false at the first element that fails, true at the end of the array.
\<close>

fun everyFrom :: "nat \<Rightarrow> (jsval \<Rightarrow> nat \<Rightarrow> bool) \<Rightarrow> jsval list \<Rightarrow> bool" where
  "everyFrom i f [] = True"
| "everyFrom i f (x # xs) = (if f x i then everyFrom (Suc i) f xs else False)"

definition js_every :: "(jsval \<Rightarrow> nat \<Rightarrow> bool) \<Rightarrow> jsval list \<Rightarrow> bool" where
  "js_every f xs = everyFrom 0 f xs"

text \<open>
  \<^verbatim>\<open>v?.find( f )\<close>: \<^verbatim>\<open>undefined\<close> on \<^verbatim>\<open>undefined\<close> and \<^verbatim>\<open>null\<close>, the
  search on an array, and a TypeError on every other value, which has no method
  \<^verbatim>\<open>find\<close> to call.
\<close>

fun optFind :: "jsval \<Rightarrow> (jsval \<Rightarrow> error + bool) \<Rightarrow> error + jsval" where
  "optFind JUndefined f = Inr JUndefined"
| "optFind JNull f = Inr JUndefined"
| "optFind (JArr r xs) f = js_find f xs"
| "optFind v f = Inl TypeError"

text \<open>\<^verbatim>\<open>v[ i ]\<close> for an index \<open>i\<close>.\<close>

fun elementAt :: "jsval \<Rightarrow> nat \<Rightarrow> jsval" where
  "elementAt (JArr r xs) i = js_index xs i"
| "elementAt (JStr s) i = (if i < length s then JStr [s ! i] else JUndefined)"
| "elementAt (JObj r fs) i = getProp (JObj r fs) (decimal i)"
| "elementAt v i = JUndefined"

section \<open>The resolvers\<close>

text \<open>
  The callback of \<^verbatim>\<open>getColorsFromDuotonePreset\<close>:
  \<^verbatim>\<open>( { slug } ) => duotone === `var:preset|duotone|${ slug }`\<close>. The destructuring
  raises on an entry that is \<^verbatim>\<open>undefined\<close> or \<^verbatim>\<open>null\<close>, the template literal
  on a slug that has no string.
\<close>

definition slugCallback :: "jsval \<Rightarrow> jsval \<Rightarrow> error + bool" where
  "slugCallback duotone duotonePreset =
     (case js_member duotonePreset ''slug'' of
        Inl e \<Rightarrow> Inl e
      | Inr slug \<Rightarrow>
          (case presetReference slug of
             Inl e \<Rightarrow> Inl e
           | Inr reference \<Rightarrow> Inr (strict_eq duotone (JStr reference))))"

definition getColorsFromDuotonePreset :: "jsval \<Rightarrow> jsval \<Rightarrow> error + jsval" where
  "getColorsFromDuotonePreset duotone duotonePalette =
     (if \<not> truthy duotone then Inr JUndefined
      else (case optFind duotonePalette (slugCallback duotone) of
              Inl e \<Rightarrow> Inl e
            | Inr preset \<Rightarrow>
                if truthy preset then js_member preset ''colors'' else Inr JUndefined))"

text \<open>
  The callback of \<^verbatim>\<open>getDuotonePresetFromColors\<close>:
  \<^verbatim>\<open>duotonePreset?.colors?.every( ( val, index ) => val === colors[ index ] )\<close>.
  The chain stops with \<^verbatim>\<open>undefined\<close>, which is falsy, when the preset or its
  \<^verbatim>\<open>colors\<close> is \<^verbatim>\<open>undefined\<close> or \<^verbatim>\<open>null\<close>; a \<^verbatim>\<open>colors\<close> that is
  not an array has no method \<^verbatim>\<open>every\<close> to call.
\<close>

definition colorsCallback :: "jsval \<Rightarrow> jsval \<Rightarrow> error + bool" where
  "colorsCallback colors duotonePreset =
     (case optMember duotonePreset ''colors'' of
        JUndefined \<Rightarrow> Inr False
      | JNull \<Rightarrow> Inr False
      | JArr r vals \<Rightarrow> Inr (js_every (\<lambda>val i. strict_eq val (elementAt colors i)) vals)
      | _ \<Rightarrow> Inl TypeError)"

definition getDuotonePresetFromColors :: "jsval \<Rightarrow> jsval \<Rightarrow> error + jsval" where
  "getDuotonePresetFromColors colors duotonePalette =
     (if \<not> truthy colors \<or> \<not> isArray colors then Inr JUndefined
      else (case optFind duotonePalette (colorsCallback colors) of
              Inl e \<Rightarrow> Inl e
            | Inr preset \<Rightarrow>
                if truthy preset then
                  (case js_member preset ''slug'' of
                     Inl e \<Rightarrow> Inl e
                   | Inr slug \<Rightarrow>
                       (case presetReference slug of
                          Inl e \<Rightarrow> Inl e
                        | Inr reference \<Rightarrow> Inr (JStr reference)))
                else Inr JUndefined))"

section \<open>The styles of a block\<close>


section \<open>The specification's reading of a match\<close>

text \<open>
  A palette entry matches the colours \<open>colors\<close> when its \<^verbatim>\<open>colors\<close> is an array
  that is equal to \<open>colors\<close> at each index of its own, an index past the end of
  \<open>colors\<close> reading \<^verbatim>\<open>undefined\<close>.
\<close>

definition presetMatches :: "jsval list \<Rightarrow> jsval \<Rightarrow> bool" where
  "presetMatches colors duotonePreset =
     (case optMember duotonePreset ''colors'' of
        JArr r vals \<Rightarrow> (\<forall>i<length vals. strict_eq (vals ! i) (js_index colors i))
      | _ \<Rightarrow> False)"

text \<open>
  The entries of a palette on which the callback of \<^verbatim>\<open>getDuotonePresetFromColors\<close>
  does not raise: those whose \<^verbatim>\<open>colors\<close>, read through \<^verbatim>\<open>?.\<close>, is
  \<^verbatim>\<open>undefined\<close>, \<^verbatim>\<open>null\<close> or an array.
\<close>

definition colorsReadable :: "jsval \<Rightarrow> bool" where
  "colorsReadable duotonePreset =
     (nullish (optMember duotonePreset ''colors'') \<or> isArray (optMember duotonePreset ''colors''))"

text \<open>An entry whose \<^verbatim>\<open>slug\<close> is a string, as the slug of a preset is.\<close>

definition slugIsString :: "jsval \<Rightarrow> bool" where
  "slugIsString duotonePreset =
     (case getProp duotonePreset ''slug'' of JStr s \<Rightarrow> True | _ \<Rightarrow> False)"

text \<open>
  An entry that \<^verbatim>\<open>getDuotonePresetFromColors\<close> either passes over or can print:
  its \<^verbatim>\<open>colors\<close>, read through \<^verbatim>\<open>?.\<close>, is \<^verbatim>\<open>undefined\<close> or
  \<^verbatim>\<open>null\<close>, or it is an array and the \<^verbatim>\<open>slug\<close> is a string.
\<close>

definition noColorsOrPreset :: "jsval \<Rightarrow> bool" where
  "noColorsOrPreset duotonePreset =
     (nullish (optMember duotonePreset ''colors'') \<or>
      (isArray (optMember duotonePreset ''colors'') \<and> slugIsString duotonePreset))"

text \<open>
  A palette that is \<^verbatim>\<open>undefined\<close>, \<^verbatim>\<open>null\<close> or an array whose entries all
  satisfy \<open>ok\<close>.
\<close>

definition paletteOf :: "(jsval \<Rightarrow> bool) \<Rightarrow> jsval \<Rightarrow> bool" where
  "paletteOf ok duotonePalette =
     (case duotonePalette of
        JUndefined \<Rightarrow> True
      | JNull \<Rightarrow> True
      | JArr r ps \<Rightarrow> list_all ok ps
      | _ \<Rightarrow> False)"

section \<open>Scoped selectors: the loops as a product\<close>

lemma last_dropWhile_eq: "dropWhile P xs \<noteq> [] \<Longrightarrow> last (dropWhile P xs) = last xs"
  by (induction xs) (auto split: if_splits)

lemma js_trim_idem: "js_trim (js_trim s) = js_trim s"
proof -
  define t where "t = dropWhile isWhiteSpace s"
  define u where "u = dropWhile isWhiteSpace (rev t)"
  have keep: "dropWhile isWhiteSpace (rev u) = rev u"
  proof (cases "u = []")
    case True
    then show ?thesis by simp
  next
    case False
    then have "rev t \<noteq> []" unfolding u_def by auto
    then have t: "t \<noteq> []" by simp
    have "last u = last (rev t)" using False unfolding u_def by (rule last_dropWhile_eq)
    also have "\<dots> = hd t" using t by (simp add: last_rev)
    finally have "hd (rev u) = hd t" using False by (simp add: hd_rev)
    moreover have "\<not> isWhiteSpace (hd t)" using t unfolding t_def by (rule hd_dropWhile)
    ultimately show ?thesis using False by (simp add: dropWhile_eq_self_iff)
  qed
  have "js_trim (js_trim s) = rev (dropWhile isWhiteSpace (rev (dropWhile isWhiteSpace (rev u))))"
    by (simp add: js_trim_def t_def u_def)
  also have "\<dots> = rev (dropWhile isWhiteSpace u)" by (simp add: keep)
  also have "\<dots> = rev u" by (simp add: u_def)
  finally show ?thesis by (simp add: js_trim_def t_def u_def)
qed

lemma innerStep_eq:
  "innerStep (outer, scoped) inner = (js_trim outer, scoped @ pushed outer inner)"
  by (simp add: innerStep_def pushed_def Let_def)

lemma pushed_trim: "pushed (js_trim outer) inner = pushed outer inner"
  by (simp add: pushed_def innerStep_def Let_def js_trim_idem)

text \<open>
  After the first inner iteration \<^verbatim>\<open>outer\<close> holds its trimmed value; trimming it
  again changes nothing.
\<close>

lemma foldl_innerStep_trimmed:
  "foldl innerStep (js_trim outer, scoped) selectors =
     (js_trim outer, scoped @ concat (map (pushed outer) selectors))"
  by (induction selectors arbitrary: scoped)
     (simp_all add: innerStep_eq js_trim_idem pushed_trim)

lemma foldl_innerStep:
  "snd (foldl innerStep (outer, scoped) selectors) =
     scoped @ concat (map (pushed outer) selectors)"
  by (cases selectors) (simp_all add: innerStep_eq foldl_innerStep_trimmed)

lemma outerStep_eq:
  "outerStep selectors scoped outer = scoped @ concat (map (pushed outer) selectors)"
  by (simp add: outerStep_def foldl_innerStep)

lemma foldl_outerStep:
  "foldl (outerStep selectors) scoped scopes =
     scoped @ concat (map (\<lambda>outer. concat (map (pushed outer) selectors)) scopes)"
  by (induction scopes arbitrary: scoped) (simp_all add: outerStep_eq)

lemma concat_product:
  "concat (map (\<lambda>(x, y). f x y) (List.product xs ys)) =
     concat (map (\<lambda>x. concat (map (f x) ys)) xs)"
  by (induction xs) (simp_all add: comp_def)

lemma selectorsScoped_product:
  "selectorsScoped scopes selectors =
     concat (map (\<lambda>(outer, inner). pushed outer inner) (List.product scopes selectors))"
  by (simp add: selectorsScoped_def foldl_outerStep concat_product)

text \<open>
  Claim C5. The scope string and the selector list are split on commas; the pairs of a
  scope and a selector are visited scope by scope and, for each scope, selector by
  selector (the order of \<^const>\<open>List.product\<close>); what each pair pushes is joined with
  commas in that order. For the scope string \<^verbatim>\<open>.wp-duotone-1,.wp-duotone-2\<close> (which
  is \<^verbatim>\<open>'.' + id\<close> in the source) and the selector list \<^verbatim>\<open>a,b\<close> the result is
  the four compound selectors of the specification.
\<close>

theorem scoped_selectors_product_order:
  "computeScopedDuotoneSelectors scope duotoneSupportSelectors =
     js_join '','' (concat (map (\<lambda>(outer, inner). pushed outer inner)
        (List.product (js_split CHR '','' scope)
                      (js_split CHR '','' duotoneSupportSelectors))))
   \<and> computeScopedDuotoneSelectors ''.wp-duotone-1,.wp-duotone-2'' ''a,b'' =
       ''.editor-styles-wrapper .wp-duotone-1a,.editor-styles-wrapper .wp-duotone-1b,.editor-styles-wrapper .wp-duotone-2a,.editor-styles-wrapper .wp-duotone-2b''
   \<and> selectorsGroup ''wp-duotone-1,.wp-duotone-2'' ''a,b'' =
       ''.editor-styles-wrapper .wp-duotone-1a,.editor-styles-wrapper .wp-duotone-1b,.editor-styles-wrapper .wp-duotone-2a,.editor-styles-wrapper .wp-duotone-2b''"
proof (intro conjI)
  show "computeScopedDuotoneSelectors scope duotoneSupportSelectors =
     js_join '','' (concat (map (\<lambda>(outer, inner). pushed outer inner)
        (List.product (js_split CHR '','' scope)
                      (js_split CHR '','' duotoneSupportSelectors))))"
    by (simp only: computeScopedDuotoneSelectors_def selectorsScoped_product)
  show "computeScopedDuotoneSelectors ''.wp-duotone-1,.wp-duotone-2'' ''a,b'' =
       ''.editor-styles-wrapper .wp-duotone-1a,.editor-styles-wrapper .wp-duotone-1b,.editor-styles-wrapper .wp-duotone-2a,.editor-styles-wrapper .wp-duotone-2b''"
    by code_simp
  show "selectorsGroup ''wp-duotone-1,.wp-duotone-2'' ''a,b'' =
       ''.editor-styles-wrapper .wp-duotone-1a,.editor-styles-wrapper .wp-duotone-1b,.editor-styles-wrapper .wp-duotone-2a,.editor-styles-wrapper .wp-duotone-2b''"
    by code_simp
qed

text \<open>
  Claim C6. For the single scope \<^verbatim>\<open>.wp-duotone-1\<close> and the single selector
  \<^verbatim>\<open>filter.duotone-sel\<close> the result is the wrapper prefix, then the scope and the
  selector with no space between them. The scope is \<^verbatim>\<open>'.' + id\<close> for the id
  \<^verbatim>\<open>wp-duotone-1\<close>, which is how \<^verbatim>\<open>BlockDuotoneStyles\<close> reaches it.
\<close>

theorem single_scope_single_selector:
  "computeScopedDuotoneSelectors ''.wp-duotone-1'' ''filter.duotone-sel'' =
     ''.editor-styles-wrapper .wp-duotone-1filter.duotone-sel''
   \<and> selectorsGroup ''wp-duotone-1'' ''filter.duotone-sel'' =
     ''.editor-styles-wrapper .wp-duotone-1filter.duotone-sel''"
  by code_simp

text \<open>
  Claim C2 says that a pair with exactly one non-empty part gives the wrapper prefix
  followed by that part. The source does not: in the branch \<^verbatim>\<open>else if ( outer )\<close>,
  where \<^verbatim>\<open>inner\<close> is empty, it appends \<^verbatim>\<open>inner\<close>, and in the branch
  \<^verbatim>\<open>else if ( inner )\<close> it appends \<^verbatim>\<open>outer\<close>. For the id \<^verbatim>\<open>wp-duotone-1\<close>
  and the selector list \<^verbatim>\<open>img,\<close> the second pair has the scope and an empty
  selector, and what is pushed for it is the bare prefix, not the prefix followed by
  \<^verbatim>\<open>.wp-duotone-1\<close>.
\<close>

theorem one_empty_part_pushes_bare_prefix:
  "selectorsGroup ''wp-duotone-1'' ''img,'' =
     ''.editor-styles-wrapper .wp-duotone-1img,.editor-styles-wrapper ''
   \<and> pushed ''.wp-duotone-1'' [] = [''.editor-styles-wrapper '']
   \<and> pushed [] ''img'' = [''.editor-styles-wrapper '']
   \<and> pushed [] [] = []"
  by code_simp

section \<open>Colours that are not an array\<close>

text \<open>
  Claim C9. When \<open>colors\<close> is not an array, \<^verbatim>\<open>getDuotonePresetFromColors\<close> returns
  \<^verbatim>\<open>undefined\<close> whatever the palette is, a palette on which the search would raise
  included: the palette is not looked at.
\<close>

theorem non_array_colors_undefined:
  "\<not> isArray colors \<Longrightarrow> getDuotonePresetFromColors colors duotonePalette = Inr JUndefined"
  by (simp add: getDuotonePresetFromColors_def)

theorem non_array_colors_undefined_witness:
  "\<not> isArray (JStr ''#000'')
   \<and> getDuotonePresetFromColors (JStr ''#000'') (JNum 5) = Inr JUndefined
   \<and> getDuotonePresetFromColors (JArr 0 []) (JNum 5) = Inl TypeError"
  using non_array_colors_undefined [of "JStr ''#000''" "JNum 5"]
  by (simp add: getDuotonePresetFromColors_def)


section \<open>Searching a palette\<close>

lemma everyFrom_iff: "everyFrom i f xs \<longleftrightarrow> (\<forall>j<length xs. f (xs ! j) (i + j))"
proof (induction xs arbitrary: i)
  case Nil
  then show ?case by simp
next
  case (Cons x xs)
  have "(\<forall>j<Suc (length xs). f ((x # xs) ! j) (i + j)) \<longleftrightarrow>
        f x i \<and> (\<forall>j<length xs. f (xs ! j) (Suc i + j))"
    by (auto simp: less_Suc_eq_0_disj)
  with Cons show ?case by simp
qed

lemma js_every_iff: "js_every f xs \<longleftrightarrow> (\<forall>j<length xs. f (xs ! j) j)"
  by (simp add: js_every_def everyFrom_iff)

lemma colorsCallback_readable:
  "colorsReadable p \<Longrightarrow> colorsCallback (JArr r colors) p = Inr (presetMatches colors p)"
  by (cases "optMember p ''colors''")
     (simp_all add: colorsReadable_def colorsCallback_def presetMatches_def js_every_iff)

lemma truthy_not_nullish: "truthy p \<Longrightarrow> \<not> nullish p"
  by (cases p) simp_all

lemma presetMatches_object: "presetMatches colors p \<Longrightarrow> truthy p \<and> \<not> nullish p"
  by (cases p) (simp_all add: presetMatches_def optMember_def)

lemma slugIsString_object: "slugIsString p \<Longrightarrow> truthy p \<and> \<not> nullish p"
  by (cases p) (simp_all add: slugIsString_def)

lemma slugIsString_iff: "slugIsString p \<longleftrightarrow> (\<exists>s. getProp p ''slug'' = JStr s)"
  by (cases "getProp p ''slug''") (simp_all add: slugIsString_def)

lemma presetReference_string: "presetReference (JStr s) = Inr (''var:preset|duotone|'' @ s)"
  by (simp add: presetReference_def)

lemma js_find_total:
  "\<forall>x\<in>set xs. f x = Inr (g x) \<Longrightarrow>
     js_find f xs = Inr (case List.find g xs of None \<Rightarrow> JUndefined | Some x \<Rightarrow> x)"
  by (induction xs) simp_all

lemma js_find_skip:
  "\<forall>x\<in>set pre. f x = Inr False \<Longrightarrow> js_find f (pre @ ys) = js_find f ys"
  by (induction pre) simp_all

lemma js_find_remove:
  "f p = Inr False \<Longrightarrow> js_find f (pre @ p # post) = js_find f (pre @ post)"
  by (induction pre) (simp_all split: sum.splits)

lemma js_find_returns:
  "\<forall>x\<in>set xs. \<exists>b. f x = Inr b \<Longrightarrow> \<exists>v. js_find f xs = Inr v"
  by (induction xs) auto

lemma js_find_found:
  "js_find f xs = Inr v \<Longrightarrow> v = JUndefined \<or> (v \<in> set xs \<and> f v = Inr True)"
  by (induction xs) (auto split: sum.splits if_splits)

lemma find_presetMatches:
  "List.find (presetMatches colors) ps = Some p \<Longrightarrow> truthy p \<and> \<not> nullish p"
  by (auto simp: find_Some_iff dest: presetMatches_object)

text \<open>
  Claim C1. For an array \<open>colors\<close> and a palette whose entries have an array (or
  nothing) as their \<^verbatim>\<open>colors\<close>, \<^verbatim>\<open>getDuotonePresetFromColors\<close> looks for the
  first entry, in palette order, whose colour list equals \<open>colors\<close> at each index of
  the entry's own list; the elements of \<open>colors\<close> past the entry's length are not
  looked at. When no entry matches it returns \<^verbatim>\<open>undefined\<close>; when the first match
  is \<open>p\<close>, with the string \<open>s\<close> as its slug, it returns the reference
  \<^verbatim>\<open>var:preset|duotone|\<close> followed by \<open>s\<close>.
\<close>

theorem first_matching_preset:
  assumes "\<forall>p\<in>set ps. colorsReadable p"
  shows "(List.find (presetMatches colors) ps = None \<longrightarrow>
            getDuotonePresetFromColors (JArr r colors) (JArr r' ps) = Inr JUndefined)
       \<and> (List.find (presetMatches colors) ps = Some p \<and> getProp p ''slug'' = JStr s \<longrightarrow>
            getDuotonePresetFromColors (JArr r colors) (JArr r' ps) =
              Inr (JStr (''var:preset|duotone|'' @ s)))"
proof -
  have "\<forall>p\<in>set ps. colorsCallback (JArr r colors) p = Inr (presetMatches colors p)"
    using assms by (simp add: colorsCallback_readable)
  then have found: "js_find (colorsCallback (JArr r colors)) ps =
      Inr (case List.find (presetMatches colors) ps of None \<Rightarrow> JUndefined | Some p \<Rightarrow> p)"
    by (rule js_find_total)
  show ?thesis
  proof (intro conjI impI)
    assume "List.find (presetMatches colors) ps = None"
    with found show "getDuotonePresetFromColors (JArr r colors) (JArr r' ps) = Inr JUndefined"
      by (simp add: getDuotonePresetFromColors_def)
  next
    assume a: "List.find (presetMatches colors) ps = Some p \<and> getProp p ''slug'' = JStr s"
    then have "truthy p \<and> \<not> nullish p" by (blast dest: find_presetMatches)
    with found a show "getDuotonePresetFromColors (JArr r colors) (JArr r' ps) =
              Inr (JStr (''var:preset|duotone|'' @ s))"
      by (simp add: getDuotonePresetFromColors_def js_member_def presetReference_string)
  qed
qed

text \<open>
  At a palette of three presets, the colours \<^verbatim>\<open>[ '#000', '#fff' ]\<close> resolve to the
  second one, whose list \<^verbatim>\<open>[ '#000' ]\<close> is shorter, and not to the third, whose list
  is the same as the input.
\<close>

theorem first_matching_preset_witness:
  "list_all colorsReadable
      [JObj 2 [(''slug'', JStr ''dark''), (''colors'', JArr 3 [JStr ''#000'', JStr ''#111''])],
       JObj 4 [(''slug'', JStr ''short''), (''colors'', JArr 5 [JStr ''#000''])],
       JObj 6 [(''slug'', JStr ''full''), (''colors'', JArr 7 [JStr ''#000'', JStr ''#fff''])]]
   \<and> List.find (presetMatches [JStr ''#000'', JStr ''#fff''])
      [JObj 2 [(''slug'', JStr ''dark''), (''colors'', JArr 3 [JStr ''#000'', JStr ''#111''])],
       JObj 4 [(''slug'', JStr ''short''), (''colors'', JArr 5 [JStr ''#000''])],
       JObj 6 [(''slug'', JStr ''full''), (''colors'', JArr 7 [JStr ''#000'', JStr ''#fff''])]]
     = Some (JObj 4 [(''slug'', JStr ''short''), (''colors'', JArr 5 [JStr ''#000''])])
   \<and> getDuotonePresetFromColors (JArr 9 [JStr ''#000'', JStr ''#fff''])
       (JArr 1 [JObj 2 [(''slug'', JStr ''dark''), (''colors'', JArr 3 [JStr ''#000'', JStr ''#111''])],
            JObj 4 [(''slug'', JStr ''short''), (''colors'', JArr 5 [JStr ''#000''])],
            JObj 6 [(''slug'', JStr ''full''), (''colors'', JArr 7 [JStr ''#000'', JStr ''#fff''])]])
     = Inr (JStr ''var:preset|duotone|short'')"
proof -
  have ok: "\<forall>p\<in>set [JObj 2 [(''slug'', JStr ''dark''), (''colors'', JArr 3 [JStr ''#000'', JStr ''#111''])],
            JObj 4 [(''slug'', JStr ''short''), (''colors'', JArr 5 [JStr ''#000''])],
            JObj 6 [(''slug'', JStr ''full''), (''colors'', JArr 7 [JStr ''#000'', JStr ''#fff''])]].
      colorsReadable p"
    by (simp add: colorsReadable_def optMember_def)
  have m: "List.find (presetMatches [JStr ''#000'', JStr ''#fff''])
     [JObj 2 [(''slug'', JStr ''dark''), (''colors'', JArr 3 [JStr ''#000'', JStr ''#111''])],
            JObj 4 [(''slug'', JStr ''short''), (''colors'', JArr 5 [JStr ''#000''])],
            JObj 6 [(''slug'', JStr ''full''), (''colors'', JArr 7 [JStr ''#000'', JStr ''#fff''])]]
     = Some (JObj 4 [(''slug'', JStr ''short''), (''colors'', JArr 5 [JStr ''#000''])])"
    by (simp add: presetMatches_def optMember_def js_index_def less_Suc_eq_0_disj)
  have s: "getProp (JObj 4 [(''slug'', JStr ''short''), (''colors'', JArr 5 [JStr ''#000''])]) ''slug''
      = JStr ''short''"
    by simp
  have "getDuotonePresetFromColors (JArr 9 [JStr ''#000'', JStr ''#fff''])
       (JArr 1 [JObj 2 [(''slug'', JStr ''dark''), (''colors'', JArr 3 [JStr ''#000'', JStr ''#111''])],
            JObj 4 [(''slug'', JStr ''short''), (''colors'', JArr 5 [JStr ''#000''])],
            JObj 6 [(''slug'', JStr ''full''), (''colors'', JArr 7 [JStr ''#000'', JStr ''#fff''])]])
     = Inr (JStr (''var:preset|duotone|'' @ ''short''))"
    using first_matching_preset [OF ok, of "[JStr ''#000'', JStr ''#fff'']" 9 1
        "JObj 4 [(''slug'', JStr ''short''), (''colors'', JArr 5 [JStr ''#000''])]" "''short''"]
      m s
    by blast
  with ok m show ?thesis by (simp add: list_all_iff)
qed

text \<open>
  Claim C10. A palette whose first entry has the empty array as its \<^verbatim>\<open>colors\<close>
  (and a string \<open>s\<close> as its slug) resolves every array \<open>colors\<close>, the empty one
  included, to the reference of that entry. An entry \<open>q\<close> whose \<^verbatim>\<open>colors\<close> is
  missing, \<^verbatim>\<open>undefined\<close> or \<^verbatim>\<open>null\<close> (or that is itself \<^verbatim>\<open>undefined\<close> or
  \<^verbatim>\<open>null\<close>) matches no input: the callback is false on it, and the result is the
  same as for the palette without it.
\<close>

theorem empty_colors_match_all_missing_colors_match_none:
  "(getProp p ''colors'' = JArr rc [] \<and> getProp p ''slug'' = JStr s \<longrightarrow>
      getDuotonePresetFromColors (JArr r colors) (JArr r' (p # rest)) =
        Inr (JStr (''var:preset|duotone|'' @ s)))
   \<and> (nullish (optMember q ''colors'') \<longrightarrow>
        colorsCallback cs q = Inr False
        \<and> getDuotonePresetFromColors cs (JArr r' (pre @ q # post)) =
            getDuotonePresetFromColors cs (JArr r' (pre @ post)))"
proof (intro conjI impI)
  assume e: "getProp p ''colors'' = JArr rc [] \<and> getProp p ''slug'' = JStr s"
  then have obj: "truthy p \<and> \<not> nullish p" by (cases p) simp_all
  with e have "colorsCallback (JArr r colors) p = Inr True"
    by (simp add: colorsCallback_def optMember_def js_every_def)
  with obj e show "getDuotonePresetFromColors (JArr r colors) (JArr r' (p # rest)) =
        Inr (JStr (''var:preset|duotone|'' @ s))"
    by (simp add: getDuotonePresetFromColors_def js_member_def presetReference_string)
next
  assume n: "nullish (optMember q ''colors'')"
  then show no: "colorsCallback cs q = Inr False"
    by (cases "optMember q ''colors''") (simp_all add: colorsCallback_def)
  then have "js_find (colorsCallback cs) (pre @ q # post) = js_find (colorsCallback cs) (pre @ post)"
    by (rule js_find_remove)
  then show "getDuotonePresetFromColors cs (JArr r' (pre @ q # post)) =
            getDuotonePresetFromColors cs (JArr r' (pre @ post))"
    by (simp add: getDuotonePresetFromColors_def)
qed

theorem empty_colors_match_all_missing_colors_match_none_witness:
  "getProp (JObj 2 [(''slug'', JStr ''none''), (''colors'', JArr 3 [])]) ''colors'' = JArr 3 []
   \<and> getProp (JObj 2 [(''slug'', JStr ''none''), (''colors'', JArr 3 [])]) ''slug'' = JStr ''none''
   \<and> getDuotonePresetFromColors (JArr 9 [JStr ''#000'', JStr ''#fff''])
        (JArr 1 [JObj 2 [(''slug'', JStr ''none''), (''colors'', JArr 3 [])],
                 JObj 4 [(''slug'', JStr ''full''), (''colors'', JArr 5 [JStr ''#000'', JStr ''#fff''])]])
       = Inr (JStr ''var:preset|duotone|none'')
   \<and> nullish (optMember (JObj 6 [(''slug'', JStr ''bare'')]) ''colors'')
   \<and> colorsCallback (JArr 9 []) (JObj 6 [(''slug'', JStr ''bare'')]) = Inr False
   \<and> getDuotonePresetFromColors (JArr 9 []) (JArr 1 [JObj 6 [(''slug'', JStr ''bare'')]]) = Inr JUndefined"
  using empty_colors_match_all_missing_colors_match_none
     [of "JObj 2 [(''slug'', JStr ''none''), (''colors'', JArr 3 [])]" 3 "''none''" 9
      "[JStr ''#000'', JStr ''#fff'']" 1
      "[JObj 4 [(''slug'', JStr ''full''), (''colors'', JArr 5 [JStr ''#000'', JStr ''#fff''])]]"
      "JObj 6 [(''slug'', JStr ''bare'')]" "JArr 9 []" "[]" "[]"]
  by (simp add: optMember_def getDuotonePresetFromColors_def)

section \<open>Resolving a reference to colours\<close>

lemma slugCallback_string:
  "getProp q ''slug'' = JStr t \<Longrightarrow>
     slugCallback (JStr (''var:preset|duotone|'' @ s)) q = Inr (s = t)"
  by (cases q) (simp_all add: slugCallback_def js_member_def presetReference_string)

text \<open>
  Claim C3 as stated, for every preset \<open>p\<close> of every palette, fails where two presets
  of the palette share a slug: the reference resolves to the colours of the first of
  them, here \<^verbatim>\<open>[ '#000', '#fff' ]\<close>, and not to those of the second,
  \<^verbatim>\<open>[ '#111', '#eee' ]\<close>.
\<close>

theorem same_slug_resolves_to_first_preset:
  "JObj 4 [(''slug'', JStr ''a''), (''colors'', JArr 5 [JStr ''#111'', JStr ''#eee''])]
     \<in> set [JObj 2 [(''slug'', JStr ''a''), (''colors'', JArr 3 [JStr ''#000'', JStr ''#fff''])],
            JObj 4 [(''slug'', JStr ''a''), (''colors'', JArr 5 [JStr ''#111'', JStr ''#eee''])]]
   \<and> getColorsFromDuotonePreset (JStr (''var:preset|duotone|'' @ ''a''))
        (JArr 1 [JObj 2 [(''slug'', JStr ''a''), (''colors'', JArr 3 [JStr ''#000'', JStr ''#fff''])],
                 JObj 4 [(''slug'', JStr ''a''), (''colors'', JArr 5 [JStr ''#111'', JStr ''#eee''])]])
       = Inr (JArr 3 [JStr ''#000'', JStr ''#fff''])
   \<and> getColorsFromDuotonePreset (JStr (''var:preset|duotone|'' @ ''a''))
        (JArr 1 [JObj 2 [(''slug'', JStr ''a''), (''colors'', JArr 3 [JStr ''#000'', JStr ''#fff''])],
                 JObj 4 [(''slug'', JStr ''a''), (''colors'', JArr 5 [JStr ''#111'', JStr ''#eee''])]])
       \<noteq> Inr (getProp (JObj 4 [(''slug'', JStr ''a''), (''colors'', JArr 5 [JStr ''#111'', JStr ''#eee''])]) ''colors'')"
  by (simp add: getColorsFromDuotonePreset_def slugCallback_def js_member_def presetReference_def)

text \<open>
  Claim C3, amended. Let \<open>p\<close> be a preset of the palette, with the string \<open>s\<close> as
  its slug, such that every entry before it has a string other than \<open>s\<close> as its slug.
  Then \<^verbatim>\<open>getColorsFromDuotonePreset\<close>, called with \<^verbatim>\<open>"var:preset|duotone|" + p.slug\<close>
  and the palette, returns exactly \<^verbatim>\<open>p.colors\<close>.
\<close>

theorem reference_resolves_to_first_preset_with_slug:
  assumes "getProp p ''slug'' = JStr s"
    and "\<forall>q\<in>set pre. slugIsString q \<and> getProp q ''slug'' \<noteq> JStr s"
  shows "getColorsFromDuotonePreset (JStr (''var:preset|duotone|'' @ s))
           (JArr r (pre @ p # post)) = Inr (getProp p ''colors'')"
proof -
  let ?d = "JStr (''var:preset|duotone|'' @ s)"
  have p: "truthy p \<and> \<not> nullish p"
    using assms(1) by (simp add: slugIsString_object slugIsString_iff)
  have "\<forall>q\<in>set pre. slugCallback ?d q = Inr False"
  proof
    fix q
    assume "q \<in> set pre"
    with assms(2) obtain t where t: "getProp q ''slug'' = JStr t" and "t \<noteq> s"
      by (auto simp: slugIsString_iff)
    then show "slugCallback ?d q = Inr False"
      using slugCallback_string [OF t, of s] by auto
  qed
  then have "js_find (slugCallback ?d) (pre @ p # post) = js_find (slugCallback ?d) (p # post)"
    by (rule js_find_skip)
  also have "\<dots> = Inr p"
    using slugCallback_string [OF assms(1), of s] by simp
  finally show ?thesis using p
    by (simp add: getColorsFromDuotonePreset_def js_member_def)
qed

theorem reference_resolves_to_first_preset_with_slug_witness:
  "getProp (JObj 4 [(''slug'', JStr ''b''), (''colors'', JArr 5 [JStr ''#111'', JStr ''#eee''])]) ''slug''
     = JStr ''b''
   \<and> slugIsString (JObj 2 [(''slug'', JStr ''a''), (''colors'', JArr 3 [JStr ''#000'', JStr ''#fff''])])
   \<and> getProp (JObj 2 [(''slug'', JStr ''a''), (''colors'', JArr 3 [JStr ''#000'', JStr ''#fff''])]) ''slug''
       \<noteq> JStr ''b''
   \<and> getColorsFromDuotonePreset (JStr ''var:preset|duotone|b'')
        (JArr 1 [JObj 2 [(''slug'', JStr ''a''), (''colors'', JArr 3 [JStr ''#000'', JStr ''#fff''])],
                 JObj 4 [(''slug'', JStr ''b''), (''colors'', JArr 5 [JStr ''#111'', JStr ''#eee''])],
                 JObj 6 [(''slug'', JStr ''b''), (''colors'', JArr 7 [JStr ''#222'', JStr ''#ddd''])]])
       = Inr (JArr 5 [JStr ''#111'', JStr ''#eee''])"
  using reference_resolves_to_first_preset_with_slug
    [of "JObj 4 [(''slug'', JStr ''b''), (''colors'', JArr 5 [JStr ''#111'', JStr ''#eee''])]" "''b''"
     "[JObj 2 [(''slug'', JStr ''a''), (''colors'', JArr 3 [JStr ''#000'', JStr ''#fff''])]]" 1
     "[JObj 6 [(''slug'', JStr ''b''), (''colors'', JArr 7 [JStr ''#222'', JStr ''#ddd''])]]"]
  by (simp add: slugIsString_def)

section \<open>Resolving two colours to a reference\<close>

text \<open>
  Claim C4 as stated, for every preset \<open>p\<close> with the colour list \<^verbatim>\<open>[ c0, c1 ]\<close>,
  fails where an earlier preset of the palette matches the same colours: the result is
  the reference of the earlier preset, here \<^verbatim>\<open>a\<close>, and not that of \<^verbatim>\<open>b\<close>.
\<close>

theorem same_colors_resolve_to_first_preset:
  "JObj 4 [(''slug'', JStr ''b''), (''colors'', JArr 5 [JStr ''#000'', JStr ''#fff''])]
     \<in> set [JObj 2 [(''slug'', JStr ''a''), (''colors'', JArr 3 [JStr ''#000'', JStr ''#fff''])],
            JObj 4 [(''slug'', JStr ''b''), (''colors'', JArr 5 [JStr ''#000'', JStr ''#fff''])]]
   \<and> getDuotonePresetFromColors (JArr 9 [JStr ''#000'', JStr ''#fff''])
        (JArr 1 [JObj 2 [(''slug'', JStr ''a''), (''colors'', JArr 3 [JStr ''#000'', JStr ''#fff''])],
                 JObj 4 [(''slug'', JStr ''b''), (''colors'', JArr 5 [JStr ''#000'', JStr ''#fff''])]])
       = Inr (JStr ''var:preset|duotone|a'')
   \<and> getDuotonePresetFromColors (JArr 9 [JStr ''#000'', JStr ''#fff''])
        (JArr 1 [JObj 2 [(''slug'', JStr ''a''), (''colors'', JArr 3 [JStr ''#000'', JStr ''#fff''])],
                 JObj 4 [(''slug'', JStr ''b''), (''colors'', JArr 5 [JStr ''#000'', JStr ''#fff''])]])
       \<noteq> Inr (JStr (''var:preset|duotone|'' @ ''b''))"
  by (simp add: getDuotonePresetFromColors_def colorsCallback_def optMember_def js_member_def
        js_every_def js_index_def presetReference_def)

text \<open>
  Claim C4, amended. Let \<open>p\<close> be a preset of the palette with the colour list
  \<^verbatim>\<open>[ c0, c1 ]\<close> of two colour strings and the string \<open>s\<close> as its slug, such that
  no entry before it matches \<^verbatim>\<open>[ c0, c1 ]\<close> (as the colour lists \<^verbatim>\<open>[]\<close>,
  \<^verbatim>\<open>[ c0 ]\<close> and \<^verbatim>\<open>[ c0, c1 ]\<close> do), the entries before it having an array or
  nothing as their \<^verbatim>\<open>colors\<close>. Then \<^verbatim>\<open>getDuotonePresetFromColors\<close>, called with
  \<^verbatim>\<open>[ c0, c1 ]\<close> and the palette, returns \<^verbatim>\<open>"var:preset|duotone|" + p.slug\<close>.
\<close>

theorem colors_resolve_to_preset_when_none_earlier_matches:
  assumes "getProp p ''colors'' = JArr rc [JStr c0, JStr c1]"
    and "getProp p ''slug'' = JStr s"
    and "\<forall>q\<in>set pre. colorsReadable q \<and> \<not> presetMatches [JStr c0, JStr c1] q"
  shows "getDuotonePresetFromColors (JArr r [JStr c0, JStr c1]) (JArr r' (pre @ p # post)) =
           Inr (JStr (''var:preset|duotone|'' @ s))"
proof -
  let ?f = "colorsCallback (JArr r [JStr c0, JStr c1])"
  have obj: "truthy p \<and> \<not> nullish p"
    using assms(2) by (simp add: slugIsString_object slugIsString_iff)
  then have c: "optMember p ''colors'' = JArr rc [JStr c0, JStr c1]"
    using assms(1) by (simp add: optMember_def)
  then have m: "presetMatches [JStr c0, JStr c1] p"
    by (simp add: presetMatches_def js_index_def less_Suc_eq_0_disj)
  have "colorsReadable p" using c by (simp add: colorsReadable_def)
  then have here: "?f p = Inr True" using m by (simp add: colorsCallback_readable)
  have "\<forall>q\<in>set pre. ?f q = Inr False"
    using assms(3) by (simp add: colorsCallback_readable)
  then have "js_find ?f (pre @ p # post) = js_find ?f (p # post)"
    by (rule js_find_skip)
  also have "\<dots> = Inr p" using here by simp
  finally show ?thesis using obj assms(2)
    by (simp add: getDuotonePresetFromColors_def js_member_def presetReference_string)
qed

theorem colors_resolve_to_preset_when_none_earlier_matches_witness:
  "getProp (JObj 4 [(''slug'', JStr ''b''), (''colors'', JArr 5 [JStr ''#000'', JStr ''#fff''])]) ''colors''
      = JArr 5 [JStr ''#000'', JStr ''#fff'']
   \<and> getProp (JObj 4 [(''slug'', JStr ''b''), (''colors'', JArr 5 [JStr ''#000'', JStr ''#fff''])]) ''slug''
      = JStr ''b''
   \<and> colorsReadable (JObj 2 [(''slug'', JStr ''a''), (''colors'', JArr 3 [JStr ''#000'', JStr ''#111''])])
   \<and> \<not> presetMatches [JStr ''#000'', JStr ''#fff'']
         (JObj 2 [(''slug'', JStr ''a''), (''colors'', JArr 3 [JStr ''#000'', JStr ''#111''])])
   \<and> getDuotonePresetFromColors (JArr 9 [JStr ''#000'', JStr ''#fff''])
        (JArr 1 [JObj 2 [(''slug'', JStr ''a''), (''colors'', JArr 3 [JStr ''#000'', JStr ''#111''])],
                 JObj 4 [(''slug'', JStr ''b''), (''colors'', JArr 5 [JStr ''#000'', JStr ''#fff''])]])
       = Inr (JStr ''var:preset|duotone|b'')"
proof -
  have c: "getProp (JObj 4 [(''slug'', JStr ''b''), (''colors'', JArr 5 [JStr ''#000'', JStr ''#fff''])]) ''colors''
      = JArr 5 [JStr ''#000'', JStr ''#fff'']"
    by simp
  have s: "getProp (JObj 4 [(''slug'', JStr ''b''), (''colors'', JArr 5 [JStr ''#000'', JStr ''#fff''])]) ''slug''
      = JStr ''b''"
    by simp
  have e: "\<forall>q\<in>set [JObj 2 [(''slug'', JStr ''a''), (''colors'', JArr 3 [JStr ''#000'', JStr ''#111''])]].
         colorsReadable q \<and> \<not> presetMatches [JStr ''#000'', JStr ''#fff''] q"
    by (simp add: colorsReadable_def presetMatches_def optMember_def js_index_def)
       (rule exI [of _ 1], simp)
  show ?thesis
    using colors_resolve_to_preset_when_none_earlier_matches [OF c s e, of 9 1 "[]"] c s e by simp
qed

section \<open>Palettes on which the resolvers return\<close>

text \<open>
  Claim C7 as stated, for every palette value, fails: a \<^verbatim>\<open>colors\<close> field that is a
  string has no method \<^verbatim>\<open>every\<close>, the destructuring parameter \<^verbatim>\<open>( { slug } )\<close>
  raises on a \<^verbatim>\<open>null\<close> entry, and a palette that is a plain object has no method
  \<^verbatim>\<open>find\<close>. Each call ends in a TypeError.
\<close>

theorem resolvers_raise_on_malformed_palette:
  "getDuotonePresetFromColors (JArr 9 [JStr ''#000'', JStr ''#fff''])
      (JArr 1 [JObj 2 [(''slug'', JStr ''a''), (''colors'', JStr ''#000'')]]) = Inl TypeError
   \<and> getColorsFromDuotonePreset (JStr ''var:preset|duotone|a'') (JArr 1 [JNull]) = Inl TypeError
   \<and> getColorsFromDuotonePreset (JStr ''var:preset|duotone|a'') (JObj 1 []) = Inl TypeError"
  by (simp add: getDuotonePresetFromColors_def getColorsFromDuotonePreset_def colorsCallback_def
        slugCallback_def optMember_def js_member_def)

text \<open>
  Claim C7, amended. For every first argument, of any type,
  \<^verbatim>\<open>getColorsFromDuotonePreset\<close> returns (a value or \<^verbatim>\<open>undefined\<close>, no error) on
  every palette that is \<^verbatim>\<open>undefined\<close>, \<^verbatim>\<open>null\<close> or an array whose entries have
  a string as their \<^verbatim>\<open>slug\<close>, and \<^verbatim>\<open>getDuotonePresetFromColors\<close> returns on
  every palette that is \<^verbatim>\<open>undefined\<close>, \<^verbatim>\<open>null\<close> or an array whose entries have
  either no \<^verbatim>\<open>colors\<close> (\<^verbatim>\<open>undefined\<close> or \<^verbatim>\<open>null\<close>, as for an entry that is
  itself \<^verbatim>\<open>undefined\<close> or \<^verbatim>\<open>null\<close>) or an array as their \<^verbatim>\<open>colors\<close> and a
  string as their \<^verbatim>\<open>slug\<close>.
\<close>

theorem resolvers_return_on_readable_palette:
  "(paletteOf slugIsString duotonePalette \<longrightarrow>
      (\<exists>v. getColorsFromDuotonePreset duotone duotonePalette = Inr v))
   \<and> (paletteOf noColorsOrPreset duotonePalette \<longrightarrow>
      (\<exists>v. getDuotonePresetFromColors colors duotonePalette = Inr v))"
proof (intro conjI impI)
  assume ok: "paletteOf slugIsString duotonePalette"
  show "\<exists>v. getColorsFromDuotonePreset duotone duotonePalette = Inr v"
  proof (cases duotonePalette)
    case (JArr r ps)
    have "\<forall>p\<in>set ps. \<exists>b. slugCallback duotone p = Inr b"
    proof
      fix p
      assume "p \<in> set ps"
      with ok JArr have "slugIsString p" by (simp add: paletteOf_def list_all_iff)
      then obtain t where "getProp p ''slug'' = JStr t" and "\<not> nullish p"
        using slugIsString_object by (auto simp: slugIsString_iff)
      then show "\<exists>b. slugCallback duotone p = Inr b"
        by (simp add: slugCallback_def js_member_def presetReference_string)
    qed
    then obtain w where "js_find (slugCallback duotone) ps = Inr w"
      using js_find_returns by blast
    with JArr show ?thesis
      by (simp add: getColorsFromDuotonePreset_def js_member_def truthy_not_nullish)
  qed (use ok in \<open>simp_all add: paletteOf_def getColorsFromDuotonePreset_def\<close>)
next
  assume ok: "paletteOf noColorsOrPreset duotonePalette"
  show "\<exists>v. getDuotonePresetFromColors colors duotonePalette = Inr v"
  proof (cases "isArray colors")
    case False
    then show ?thesis by (simp add: getDuotonePresetFromColors_def)
  next
    case True
    then obtain rc cs where c: "colors = JArr rc cs" by (cases colors) simp_all
    show ?thesis
    proof (cases duotonePalette)
      case (JArr r ps)
      with ok have each: "\<forall>p\<in>set ps. noColorsOrPreset p"
        by (simp add: paletteOf_def list_all_iff)
      then have "\<forall>p\<in>set ps. colorsReadable p"
        by (auto simp: noColorsOrPreset_def colorsReadable_def)
      then have "\<forall>p\<in>set ps. \<exists>b. colorsCallback colors p = Inr b"
        by (simp add: c colorsCallback_readable)
      then obtain w where w: "js_find (colorsCallback colors) ps = Inr w"
        using js_find_returns by blast
      then consider "w = JUndefined" | "w \<in> set ps" "colorsCallback colors w = Inr True"
        using js_find_found by blast
      then show ?thesis
      proof cases
        case 1
        with w JArr c show ?thesis by (simp add: getDuotonePresetFromColors_def)
      next
        case 2
        from 2(2) have "\<not> nullish (optMember w ''colors'')"
          by (cases "optMember w ''colors''") (simp_all add: colorsCallback_def)
        with 2(1) each have "slugIsString w" by (auto simp: noColorsOrPreset_def)
        then obtain t where "getProp w ''slug'' = JStr t" and "truthy w" and "\<not> nullish w"
          using slugIsString_object by (auto simp: slugIsString_iff)
        with w JArr c show ?thesis
          by (simp add: getDuotonePresetFromColors_def js_member_def presetReference_string)
      qed
    qed (use ok in \<open>simp_all add: paletteOf_def getDuotonePresetFromColors_def\<close>)
  qed
qed

theorem resolvers_return_on_readable_palette_witness:
  "paletteOf slugIsString
      (JArr 1 [JObj 2 [(''slug'', JStr ''a''), (''colors'', JStr ''#000'')], JObj 3 [(''slug'', JStr ''b'')]])
   \<and> getColorsFromDuotonePreset (JStr ''var:preset|duotone|a'')
        (JArr 1 [JObj 2 [(''slug'', JStr ''a''), (''colors'', JStr ''#000'')], JObj 3 [(''slug'', JStr ''b'')]])
       = Inr (JStr ''#000'')
   \<and> paletteOf noColorsOrPreset
        (JArr 1 [JNull, JObj 2 [(''slug'', JNum 7)], JObj 3 [(''slug'', JStr ''a''), (''colors'', JArr 4 [JStr ''#000''])]])
   \<and> getDuotonePresetFromColors (JArr 9 [JStr ''#000''])
        (JArr 1 [JNull, JObj 2 [(''slug'', JNum 7)], JObj 3 [(''slug'', JStr ''a''), (''colors'', JArr 4 [JStr ''#000''])]])
       = Inr (JStr ''var:preset|duotone|a'')"
  using resolvers_return_on_readable_palette
          [of "JArr 1 [JObj 2 [(''slug'', JStr ''a''), (''colors'', JStr ''#000'')], JObj 3 [(''slug'', JStr ''b'')]]"
              "JStr ''var:preset|duotone|a''" "JArr 9 [JStr ''#000'']"]
        resolvers_return_on_readable_palette
          [of "JArr 1 [JNull, JObj 2 [(''slug'', JNum 7)], JObj 3 [(''slug'', JStr ''a''), (''colors'', JArr 4 [JStr ''#000''])]]"
              "JStr ''var:preset|duotone|a''" "JArr 9 [JStr ''#000'']"]
  by (simp add: paletteOf_def noColorsOrPreset_def slugIsString_def optMember_def
        getColorsFromDuotonePreset_def getDuotonePresetFromColors_def slugCallback_def
        colorsCallback_def js_member_def presetReference_def js_every_def js_index_def)

section \<open>The sentinel \<^verbatim>\<open>unset\<close>\<close>



end
